theory Spec2Isabelle
  imports Main
begin

section \<open>JavaScript values used by the media resolver\<close>

text \<open>
  Strings are character lists. A JavaScript value that may be \<open>undefined\<close> (a missing
  property, a destructured field of a primitive) is an \<open>option\<close>; \<open>null\<close> and
  \<open>undefined\<close> are both \<open>None\<close>, since the code only ever tests them for truthiness.
\<close>

definition truthy :: "string option \<Rightarrow> bool" where
  "truthy v = (case v of None \<Rightarrow> False | Some s \<Rightarrow> s \<noteq> [])"

definition truthy_num :: "int option \<Rightarrow> bool" where
  "truthy_num v = (case v of None \<Rightarrow> False | Some n \<Rightarrow> n \<noteq> 0)"

text \<open>\<open>a || b\<close> on strings.\<close>

definition or_string :: "string option \<Rightarrow> string \<Rightarrow> string" where
  "or_string a b = (case a of None \<Rightarrow> b | Some s \<Rightarrow> if s = [] then b else s)"

text \<open>\<open>String(v)\<close>, the conversion the built-ins apply to their argument.\<close>

definition to_string :: "string option \<Rightarrow> string" where
  "to_string v = (case v of None \<Rightarrow> ''undefined'' | Some s \<Rightarrow> s)"

text \<open>\<open>toLowerCase\<close>, on the ASCII letters.\<close>

definition lower_char :: "char \<Rightarrow> char" where
  "lower_char c =
     (case map_of (zip ''ABCDEFGHIJKLMNOPQRSTUVWXYZ'' ''abcdefghijklmnopqrstuvwxyz'') c of
        None \<Rightarrow> c
      | Some d \<Rightarrow> d)"

definition toLowerCase :: "string \<Rightarrow> string" where
  "toLowerCase s = map lower_char s"

text \<open>lodash \<open>trim(s, chars)\<close>: strips the given characters from both ends.\<close>

definition trim :: "string \<Rightarrow> string \<Rightarrow> string" where
  "trim s chars =
     rev (dropWhile (\<lambda>c. c \<in> set chars) (rev (dropWhile (\<lambda>c. c \<in> set chars) s)))"

text \<open>\<open>s.replace(/c/g, d)\<close> for a single character \<open>c\<close>.\<close>

definition replace_all :: "char \<Rightarrow> char \<Rightarrow> string \<Rightarrow> string" where
  "replace_all c d s = map (\<lambda>x. if x = c then d else x) s"

text \<open>\<open>s.split(c).pop()\<close> and \<open>s.split(c).shift()\<close>: the last and the first segment.\<close>

definition split_pop :: "char \<Rightarrow> string \<Rightarrow> string" where
  "split_pop c s = rev (takeWhile (\<lambda>x. x \<noteq> c) (rev s))"

definition split_shift :: "char \<Rightarrow> string \<Rightarrow> string" where
  "split_shift c s = takeWhile (\<lambda>x. x \<noteq> c) s"

text \<open>\<open>s.lastIndexOf(c)\<close>: \<open>-1\<close> when \<open>c\<close> does not occur.\<close>

definition lastIndexOf :: "string \<Rightarrow> char \<Rightarrow> int" where
  "lastIndexOf s c =
     (if c \<in> set s
      then int (length s) - 1 - int (length (takeWhile (\<lambda>x. x \<noteq> c) (rev s)))
      else - 1)"

text \<open>
  \<open>s.substring(a, b)\<close>: both indices are clamped to \<open>0 .. length\<close> and swapped when out
  of order. \<open>s.substring(a)\<close> runs to the end of the string.
\<close>

definition clamp_index :: "string \<Rightarrow> int \<Rightarrow> nat" where
  "clamp_index s i = (if i < 0 then 0 else min (nat i) (length s))"

definition substring :: "string \<Rightarrow> int \<Rightarrow> int \<Rightarrow> string" where
  "substring s a b =
     (let x = clamp_index s a; y = clamp_index s b
      in take (max x y - min x y) (drop (min x y) s))"

definition substring_from :: "string \<Rightarrow> int \<Rightarrow> string" where
  "substring_from s a = drop (clamp_index s a) s"

text \<open>\<open>s.startsWith(p)\<close>.\<close>

definition startsWith :: "string \<Rightarrow> string \<Rightarrow> bool" where
  "startsWith s p = (take (length p) s = p)"

text \<open>\<open>x | 0\<close>: \<open>NaN\<close> becomes 0, a number is reduced to a signed 32-bit integer.\<close>

definition or_zero :: "int option \<Rightarrow> int" where
  "or_zero v =
     (case v of
        None \<Rightarrow> 0
      | Some n \<Rightarrow> (n + 2147483648) mod 4294967296 - 2147483648)"

section \<open>Errors, promises\<close>

text \<open>Everything the code throws or is handed as an error.\<close>

datatype exn =
    URIError string
  | InvalidURL string
  | FileTypeNotHandled string
  | StatusCodeError "string option" int
  | RequestError string
  | MissingContentType
  | WriteError string
  | UploadError string

text \<open>
  The state a promise is left in. \<open>Pending\<close> is a promise that is never settled: the
  caller awaiting it never resumes, so neither its \<open>catch\<close> nor its \<open>finally\<close> runs.
\<close>

datatype 'a promise = Resolved 'a | Rejected exn | Pending

section \<open>The extension allow-list\<close>

definition ALLOWED_AUDIOS :: "string list" where
  "ALLOWED_AUDIOS = [''mp3'', ''wav'', ''ogg'']"

definition ALLOWED_IMAGES :: "string list" where
  "ALLOWED_IMAGES = [''png'', ''gif'', ''jpg'', ''jpeg'', ''svg'', ''bmp'', ''tif'', ''tiff'']"

definition ALLOWED_VIDEOS :: "string list" where
  "ALLOWED_VIDEOS = [''mp4'', ''avi'']"

text \<open>
  The object \<open>fileTypeCheckers\<close>, as a map from its four keys. (Keys that a JavaScript
  object inherits from its prototype are not file types and are left out.)
\<close>

definition fileTypeCheckers :: "string \<Rightarrow> (string \<Rightarrow> bool) option" where
  "fileTypeCheckers type =
     (if type = ''audios'' then Some (\<lambda>ext. ext \<in> set ALLOWED_AUDIOS)
      else if type = ''files'' then Some (\<lambda>ext. True)
      else if type = ''images'' then Some (\<lambda>ext. ext \<in> set ALLOWED_IMAGES)
      else if type = ''videos'' then Some (\<lambda>ext. ext \<in> set ALLOWED_VIDEOS)
      else None)"

definition getFileTypeChecker :: "string \<Rightarrow> exn + (string \<Rightarrow> bool)" where
  "getFileTypeChecker type =
     (case fileTypeCheckers type of
        None \<Rightarrow> Inl (FileTypeNotHandled type)
      | Some checker \<Rightarrow> Inr checker)"

text \<open>\<open>xs.map(f)\<close> for an \<open>f\<close> that may throw: the first throw ends the loop.\<close>

fun map_throwing :: "('a \<Rightarrow> exn + 'b) \<Rightarrow> 'a list \<Rightarrow> exn + 'b list" where
  "map_throwing f [] = Inr []"
| "map_throwing f (x # xs) =
     (case f x of
        Inl e \<Rightarrow> Inl e
      | Inr y \<Rightarrow> (case map_throwing f xs of Inl e \<Rightarrow> Inl e | Inr ys \<Rightarrow> Inr (y # ys)))"

definition isExtensionAllowed :: "string \<Rightarrow> string list \<Rightarrow> exn + bool" where
  "isExtensionAllowed ext allowedFileTypes =
     (case map_throwing getFileTypeChecker allowedFileTypes of
        Inl e \<Rightarrow> Inl e
      | Inr checkers \<Rightarrow> Inr (list_ex (\<lambda>checker. checker ext) checkers))"

text \<open>The four file types of Strapi's \<open>allowedTypes\<close>.\<close>

definition known_types :: "string list \<Rightarrow> bool" where
  "known_types allowedFileTypes =
     list_all (\<lambda>t. t \<in> set [''audios'', ''files'', ''images'', ''videos'']) allowedFileTypes"

section \<open>The media store, the disk and the libraries\<close>

text \<open>A row of \<open>plugin::upload.file\<close>, with the fields the resolver reads.\<close>

record stored_file =
  file_id :: int
  file_hash :: string
  file_ext :: string
  file_name :: string

text \<open>
  The file \<open>fetchFile\<close> resolves with, \<open>{name, type, size, path}\<close>; \<open>importFile\<close> passes
  the same four fields on as \<open>files\<close>.
\<close>

record temp_file =
  tf_name :: string
  tf_type :: string
  tf_size :: int
  tf_path :: string

record file_info =
  info_name :: string
  info_alternativeText :: string
  info_caption :: string

text \<open>The arguments of one call of the upload service.\<close>

record upload_request =
  up_files :: temp_file
  up_fileInfo :: file_info
  up_user :: string

text \<open>What the \<open>request\<close> library hands to its callback: \<open>err\<close>, or \<open>res\<close> and \<open>body\<close>.\<close>

record response =
  statusCode :: int
  content_type :: "string option"
  content_length :: "string option"
  res_body :: string

datatype request_result = RequestFailed exn | Responded response

text \<open>
  Everything the module reaches through \<open>require\<close> or the global \<open>strapi\<close> and that is
  not part of this repository is a field of the environment: the JavaScript built-ins
  \<open>decodeURIComponent\<close>, \<open>new URL(s).pathname\<close> and \<open>parseInt\<close> (an \<open>Inl\<close> is the
  exception they throw, \<open>None\<close> is \<open>NaN\<close>), \<open>slugify\<close> with the options
  \<open>{separator: '_', lowercase: false}\<close>, the HTTP GET of \<open>request\<close>, \<open>os.tmpdir()\<close>, the
  directory \<open>fse.mkdtemp\<close> creates on its n-th call, whether \<open>fs.writeFileSync\<close> throws
  on a path, and the upload service, which is given the rows of the media store and
  returns the uploaded files and the new rows, or throws.
\<close>

record env =
  decodeURIComponent :: "string \<Rightarrow> exn + string"
  url_pathname :: "string \<Rightarrow> exn + string"
  slugify :: "string \<Rightarrow> string"
  parseInt :: "string option \<Rightarrow> int option"
  request :: "string option \<Rightarrow> request_result"
  tmpdir :: string
  mkdtemp :: "string \<Rightarrow> nat \<Rightarrow> string"
  write_fails :: "string \<Rightarrow> bool"
  upload :: "upload_request \<Rightarrow> stored_file list \<Rightarrow> exn + (stored_file list \<times> stored_file list)"

text \<open>Every call that leaves the module is recorded, in order.\<close>

datatype event =
    FindOne int
  | FindManyHash string
  | FindManyName string
  | HttpGet "string option"
  | Mkdtemp string
  | WriteFile string
  | RmFile string
  | Upload upload_request
  | LogError exn
  | UnhandledRejection exn

text \<open>
  The state the module acts on: the rows of the media store, the temporary files on
  disk, the number of temporary directories created so far, and the calls made.
\<close>

record world =
  store :: "stored_file list"
  disk :: "string set"
  tmp_seq :: nat
  trace :: "event list"

definition emit :: "event \<Rightarrow> world \<Rightarrow> world" where
  "emit e w = w\<lparr>trace := trace w @ [e]\<rparr>"

text \<open>\<open>await\<close>: the continuation runs only when the promise is resolved.\<close>

definition await :: "'a promise \<times> world \<Rightarrow> ('a \<Rightarrow> world \<Rightarrow> 'b promise \<times> world) \<Rightarrow> 'b promise \<times> world" where
  "await m k =
     (case m of
        (Resolved v, w) \<Rightarrow> k v w
      | (Rejected e, w) \<Rightarrow> (Rejected e, w)
      | (Pending, w) \<Rightarrow> (Pending, w))"

section \<open>File data of a URL\<close>

definition getHashPart :: "env \<Rightarrow> string option \<Rightarrow> exn + string" where
  "getHashPart env rawUrl =
     (case decodeURIComponent env (to_string rawUrl) of
        Inl e \<Rightarrow> Inl e
      | Inr decoded \<Rightarrow>
          (case url_pathname env decoded of
             Inl e \<Rightarrow> Inl e
           | Inr pathname \<Rightarrow>
               Inr (slugify env
                 (or_string (Some (substring pathname 0 (lastIndexOf pathname CHR ''.''))) pathname))))"

record file_data =
  fd_name :: string
  fd_hashPart :: string
  fd_extension :: string

definition getFileDataFromRawUrl :: "env \<Rightarrow> string option \<Rightarrow> exn + file_data" where
  "getFileDataFromRawUrl env rawUrl =
     (case decodeURIComponent env (to_string rawUrl) of
        Inl e \<Rightarrow> Inl e
      | Inr decoded \<Rightarrow>
          (case url_pathname env decoded of
             Inl e \<Rightarrow> Inl e
           | Inr pathname \<Rightarrow>
               (let name = replace_all CHR ''/'' CHR ''-'' (trim (toLowerCase pathname) ''/'')
                in case getHashPart env rawUrl of
                     Inl e \<Rightarrow> Inl e
                   | Inr hashPart \<Rightarrow>
                       Inr \<lparr>fd_name = name, fd_hashPart = hashPart,
                            fd_extension = toLowerCase (split_pop CHR ''.'' pathname)\<rparr>)))"

text \<open>The object \<open>isValidFileUrl\<close> returns, \<open>{isValid, fileData: {fileName, rawUrl, hashPart}}\<close>.\<close>

record checked_file_data =
  cf_fileName :: string
  cf_rawUrl :: "string option"
  cf_hashPart :: "string option"

record check_result =
  cr_isValid :: bool
  cr_fileData :: checked_file_data

text \<open>The \<open>try\<close> block of \<open>isValidFileUrl\<close>.\<close>

definition isValidFileUrl_try :: "env \<Rightarrow> string option \<Rightarrow> string list \<Rightarrow> exn + check_result" where
  "isValidFileUrl_try env url allowedFileTypes =
     (case getFileDataFromRawUrl env url of
        Inl e \<Rightarrow> Inl e
      | Inr fd \<Rightarrow>
          (case isExtensionAllowed (fd_extension fd) allowedFileTypes of
             Inl e \<Rightarrow> Inl e
           | Inr ok \<Rightarrow>
               (case getHashPart env url of
                  Inl e \<Rightarrow> Inl e
                | Inr hp \<Rightarrow>
                    Inr \<lparr>cr_isValid = ok,
                         cr_fileData = \<lparr>cf_fileName = fd_name fd, cf_rawUrl = url,
                                        cf_hashPart = Some hp\<rparr>\<rparr>)))"

definition isValidFileUrl :: "env \<Rightarrow> string option \<Rightarrow> string list \<Rightarrow> world \<Rightarrow> check_result \<times> world" where
  "isValidFileUrl env url allowedFileTypes w =
     (case isValidFileUrl_try env url allowedFileTypes of
        Inr r \<Rightarrow> (r, w)
      | Inl err \<Rightarrow>
          (\<lparr>cr_isValid = False,
            cr_fileData = \<lparr>cf_fileName = [], cf_rawUrl = Some [], cf_hashPart = None\<rparr>\<rparr>,
           emit (LogError err) w))"

section \<open>Looking up stored files\<close>

record filters =
  flt_id :: "int option"
  flt_hash :: "string option"
  flt_name :: "string option"

definition findFile :: "filters \<Rightarrow> world \<Rightarrow> stored_file option \<times> world" where
  "findFile f w =
     (if truthy_num (flt_id f) then
        (case flt_id f of
           None \<Rightarrow> (None, w)
         | Some i \<Rightarrow> (find (\<lambda>x. file_id x = i) (store w), emit (FindOne i) w))
      else if truthy (flt_hash f) then
        (case flt_hash f of
           None \<Rightarrow> (None, w)
         | Some h \<Rightarrow>
             (find (\<lambda>x. startsWith (file_hash x) (h @ ''_'')) (store w),
              emit (FindManyHash (h @ ''_'')) w))
      else if truthy (flt_name f) then
        (case flt_name f of
           None \<Rightarrow> (None, w)
         | Some n \<Rightarrow> (find (\<lambda>x. file_name x = n) (store w), emit (FindManyName n) w))
      else (None, w))"

text \<open>
  The check both \<open>importById\<close> and \<open>importByName\<close> apply to what \<open>findFile\<close> returned:
  \<open>if (file && !isExtensionAllowed(file.ext.substring(1), allowedFileTypes)) file = null\<close>.
\<close>

definition null_unless_allowed ::
  "string list \<Rightarrow> stored_file option \<times> world \<Rightarrow> stored_file option promise \<times> world" where
  "null_unless_allowed allowedFileTypes r =
     (case r of
        (None, w) \<Rightarrow> (Resolved None, w)
      | (Some file, w) \<Rightarrow>
          (case isExtensionAllowed (substring_from (file_ext file) 1) allowedFileTypes of
             Inl e \<Rightarrow> (Rejected e, w)
           | Inr ok \<Rightarrow> (Resolved (if ok then Some file else None), w)))"

definition importById :: "int \<Rightarrow> string list \<Rightarrow> world \<Rightarrow> stored_file option promise \<times> world" where
  "importById i allowedFileTypes w =
     null_unless_allowed allowedFileTypes
       (findFile \<lparr>flt_id = Some i, flt_hash = None, flt_name = None\<rparr> w)"

definition importByName :: "string \<Rightarrow> string list \<Rightarrow> world \<Rightarrow> stored_file option promise \<times> world" where
  "importByName n allowedFileTypes w =
     null_unless_allowed allowedFileTypes
       (findFile \<lparr>flt_id = None, flt_hash = None, flt_name = Some n\<rparr> w)"

section \<open>Fetching and uploading\<close>

text \<open>
  \<open>path.join(a, b)\<close> for a directory and a name that has no separator. \<open>writeFile\<close>
  creates a fresh directory (\<open>fse.mkdtemp\<close>, taken to succeed) and writes the file into
  it; when \<open>fs.writeFileSync\<close> throws, the error is logged and thrown again.
\<close>

definition path_join :: "string \<Rightarrow> string \<Rightarrow> string" where
  "path_join a b = a @ ''/'' @ b"

definition writeFile :: "env \<Rightarrow> string \<Rightarrow> string \<Rightarrow> world \<Rightarrow> (exn + string) \<times> world" where
  "writeFile env n content w =
     (let tmpWorkingDirectory = mkdtemp env (path_join (tmpdir env) ''strapi-upload-'') (tmp_seq w);
          w1 = emit (Mkdtemp tmpWorkingDirectory) (w\<lparr>tmp_seq := Suc (tmp_seq w)\<rparr>);
          filePath = path_join tmpWorkingDirectory n
      in if write_fails env filePath
         then (Inl (WriteError filePath), emit (LogError (WriteError filePath)) w1)
         else (Inr filePath, emit (WriteFile filePath) (w1\<lparr>disk := insert filePath (disk w1)\<rparr>)))"

definition deleteFileIfExists :: "string option \<Rightarrow> world \<Rightarrow> world" where
  "deleteFileIfExists filePath w =
     (case filePath of
        None \<Rightarrow> w
      | Some p \<Rightarrow>
          if p \<noteq> [] \<and> p \<in> disk w then emit (RmFile p) (w\<lparr>disk := disk w - {p}\<rparr>) else w)"

text \<open>
  The callback \<open>fetchFile\<close> gives to \<open>request\<close> is an \<open>async\<close> function. What it throws
  rejects the promise of the callback itself, which nobody holds; the promise that
  \<open>fetchFile\<close> returned is settled only by \<open>reject(err)\<close> and \<open>resolve(...)\<close>.
\<close>

definition unhandled :: "exn \<Rightarrow> world \<Rightarrow> temp_file promise \<times> world" where
  "unhandled e w = (Pending, emit (UnhandledRejection e) w)"

definition fetchFile :: "env \<Rightarrow> string option \<Rightarrow> world \<Rightarrow> temp_file promise \<times> world" where
  "fetchFile env url w =
     (let w1 = emit (HttpGet url) w
      in case request env url of
           RequestFailed err \<Rightarrow> (Rejected err, w1)
         | Responded res \<Rightarrow>
             if statusCode res < 200 \<or> 300 \<le> statusCode res
             then unhandled (StatusCodeError url (statusCode res)) w1
             else
               (case content_type res of
                  None \<Rightarrow> unhandled MissingContentType w1
                | Some ct \<Rightarrow>
                    (let type = split_shift CHR '';'' ct;
                         size = or_zero (parseInt env (content_length res))
                     in case getFileDataFromRawUrl env url of
                          Inl e \<Rightarrow> unhandled e w1
                        | Inr fd \<Rightarrow>
                            (case writeFile env (fd_name fd) (res_body res) w1 of
                               (Inl e, w2) \<Rightarrow> unhandled e w2
                             | (Inr filePath, w2) \<Rightarrow>
                                 (Resolved \<lparr>tf_name = fd_name fd, tf_type = type,
                                            tf_size = size, tf_path = filePath\<rparr>, w2)))))"

text \<open>
  A media reference given as an object, \<open>{id, url, name, alternativeText, caption}\<close>,
  every property optional. \<open>importByUrl\<close> and \<open>importFile\<close> destructure the last four.
\<close>

record descriptor =
  d_id :: "int option"
  d_url :: "string option"
  d_name :: "string option"
  d_alternativeText :: "string option"
  d_caption :: "string option"

definition upload_args :: "descriptor \<Rightarrow> temp_file \<Rightarrow> string \<Rightarrow> upload_request" where
  "upload_args d file user =
     \<lparr>up_files = \<lparr>tf_name = tf_name file, tf_type = tf_type file,
                  tf_size = tf_size file, tf_path = tf_path file\<rparr>,
      up_fileInfo = \<lparr>info_name = or_string (d_name d) (tf_name file),
                     info_alternativeText = or_string (d_alternativeText d) (tf_name file),
                     info_caption = or_string (d_caption d) (tf_name file)\<rparr>,
      up_user = user\<rparr>"

text \<open>
  \<open>try { fetch; upload; return } catch { log; rethrow } finally { delete }\<close>. When the
  fetch is never settled the function never resumes.
\<close>

definition importFile :: "env \<Rightarrow> descriptor \<Rightarrow> string \<Rightarrow> world \<Rightarrow> stored_file option promise \<times> world" where
  "importFile env d user w =
     (case fetchFile env (d_url d) w of
        (Pending, w1) \<Rightarrow> (Pending, w1)
      | (Rejected err, w1) \<Rightarrow> (Rejected err, deleteFileIfExists None (emit (LogError err) w1))
      | (Resolved file, w1) \<Rightarrow>
          (let w2 = emit (Upload (upload_args d file user)) w1
           in case upload env (upload_args d file user) (store w2) of
                Inl err \<Rightarrow>
                  (Rejected err, deleteFileIfExists (Some (tf_path file)) (emit (LogError err) w2))
              | Inr (uploaded, rows) \<Rightarrow>
                  (Resolved (case uploaded of [] \<Rightarrow> None | uploadedFile # _ \<Rightarrow> Some uploadedFile),
                   deleteFileIfExists (Some (tf_path file)) (w2\<lparr>store := rows\<rparr>))))"

definition importByUrl :: "env \<Rightarrow> descriptor \<Rightarrow> string list \<Rightarrow> string \<Rightarrow> world \<Rightarrow> stored_file option promise \<times> world" where
  "importByUrl env d allowedFileTypes user w =
     (case isValidFileUrl env (d_url d) allowedFileTypes w of
        (checkResult, w1) \<Rightarrow>
          if \<not> cr_isValid checkResult then (Resolved None, w1)
          else
            (case findFile \<lparr>flt_id = None,
                            flt_hash = Some (cf_fileName (cr_fileData checkResult)),
                            flt_name = None\<rparr> w1 of
               (Some file, w2) \<Rightarrow> (Resolved (Some file), w2)
             | (None, w2) \<Rightarrow>
                 importFile env (d\<lparr>d_url := cf_rawUrl (cr_fileData checkResult)\<rparr>) user w2))"

section \<open>The resolver\<close>

text \<open>
  What \<open>findOrImportFile\<close> is given: a number, a string, an object that passes
  \<open>isObjectSafe\<close> (a helper of \<open>libs/objects\<close>, which is not among the files at hand:
  \<open>JsObject\<close> stands for the values it accepts), or anything else, for which the function
  returns \<open>undefined\<close>.
\<close>

datatype file_entry = JsNumber int | JsString string | JsObject descriptor | JsOther

text \<open>A string primitive has none of the properties \<open>importByUrl\<close> destructures.\<close>

definition string_properties :: "string \<Rightarrow> descriptor" where
  "string_properties s =
     \<lparr>d_id = None, d_url = None, d_name = None, d_alternativeText = None, d_caption = None\<rparr>"

text \<open>
  In the object branch \<open>file\<close> starts as \<open>null\<close>, and each of the three steps runs
  when \<open>!file\<close> holds and the property is truthy (a number other than 0, a string other
  than the empty one).
\<close>

definition findOrImportFile :: "env \<Rightarrow> file_entry \<Rightarrow> string \<Rightarrow> string list \<Rightarrow> world \<Rightarrow> stored_file option promise \<times> world" where
  "findOrImportFile env fileData user allowedFileTypes w =
     (case fileData of
        JsNumber n \<Rightarrow> importById n allowedFileTypes w
      | JsString s \<Rightarrow> importByUrl env (string_properties s) allowedFileTypes user w
      | JsObject d \<Rightarrow>
          await (case d_id d of
                   Some i \<Rightarrow> if i \<noteq> 0 then importById i allowedFileTypes w
                             else (Resolved None, w)
                 | None \<Rightarrow> (Resolved None, w)) (\<lambda>file w1.
          await (if file = None \<and> truthy (d_url d)
                 then importByUrl env d allowedFileTypes user w1
                 else (Resolved file, w1)) (\<lambda>file w2.
          await (case d_name d of
                   Some n \<Rightarrow> if file = None \<and> n \<noteq> [] then importByName n allowedFileTypes w2
                             else (Resolved file, w2)
                 | None \<Rightarrow> (Resolved file, w2)) (\<lambda>file w3.
          (Resolved file, w3))))
      | JsOther \<Rightarrow> (Resolved None, w))"

text \<open>The calls \<open>findOrImportFile\<close> made, from the state before and the state after.\<close>

definition calls_since :: "world \<Rightarrow> world \<Rightarrow> event list" where
  "calls_since w w' = drop (length (trace w)) (trace w')"

definition is_fetch_or_upload :: "event \<Rightarrow> bool" where
  "is_fetch_or_upload e =
     (case e of HttpGet u \<Rightarrow> True | WriteFile p \<Rightarrow> True | Upload r \<Rightarrow> True | _ \<Rightarrow> False)"

text \<open>
  Between two states nothing was fetched, written or uploaded: the media store and the
  disk are the same, and the calls made since are none of those.
\<close>

definition no_fetch_or_upload :: "world \<Rightarrow> world \<Rightarrow> bool" where
  "no_fetch_or_upload w w' =
     (store w' = store w \<and> disk w' = disk w \<and>
      take (length (trace w)) (trace w') = trace w \<and>
      filter is_fetch_or_upload (calls_since w w') = [])"

text \<open>A path stripped of its extension: what stands before its last dot.\<close>

definition without_extension :: "string \<Rightarrow> string" where
  "without_extension p = rev (drop 1 (dropWhile (\<lambda>c. c \<noteq> CHR ''.'') (rev p)))"

definition written_paths :: "event list \<Rightarrow> string list" where
  "written_paths es = concat (map (\<lambda>e. case e of WriteFile p \<Rightarrow> [p] | _ \<Rightarrow> []) es)"

text \<open>
  The resolution order in the words of the specification: the branches a reference has
  are tried in the order id, url, name, and the first that yields a file wins.
\<close>

fun first_match ::
  "(world \<Rightarrow> stored_file option promise \<times> world) list \<Rightarrow> world \<Rightarrow> stored_file option promise \<times> world" where
  "first_match [] w = (Resolved None, w)"
| "first_match (branch # branches) w =
     (case branch w of
        (Resolved None, w') \<Rightarrow> first_match branches w'
      | (Resolved (Some file), w') \<Rightarrow> (Resolved (Some file), w')
      | (Rejected e, w') \<Rightarrow> (Rejected e, w')
      | (Pending, w') \<Rightarrow> (Pending, w'))"

definition resolution_order ::
  "env \<Rightarrow> descriptor \<Rightarrow> string \<Rightarrow> string list \<Rightarrow> (world \<Rightarrow> stored_file option promise \<times> world) list" where
  "resolution_order env d user allowedFileTypes =
     (case d_id d of
        None \<Rightarrow> []
      | Some i \<Rightarrow> if i = 0 then [] else [importById i allowedFileTypes]) @
     (if truthy (d_url d) then [importByUrl env d allowedFileTypes user] else []) @
     (case d_name d of
        None \<Rightarrow> []
      | Some n \<Rightarrow> if n = [] then [] else [importByName n allowedFileTypes])"

section \<open>The export controller\<close>

text \<open>The body of an export request; \<open>deepness\<close> may be missing.\<close>

record export_body =
  slug :: string
  search :: string
  applySearch :: bool
  exportFormat :: string
  relationsAsId :: bool
  deepness :: "int option"

text \<open>The arguments the export service is called with.\<close>

record export_args =
  arg_slug :: string
  arg_search :: string
  arg_applySearch :: bool
  arg_exportFormat :: string
  arg_relationsAsId :: bool
  arg_deepness :: int

text \<open>What the controller leaves in the context: nothing, the 403 of \<open>ctx.forbidden()\<close>, or a body.\<close>

datatype reply = NoReply | Forbidden | Body string

record ctx =
  request_body :: export_body
  userAbility :: string
  ctx_reply :: reply

text \<open>
  The collaborators of the controller: the permission checker of the content manager
  (\<open>create({userAbility, model}).can.read()\<close>) and the export service of the plugin, which
  returns the exported data or throws.
\<close>

record export_env =
  can_read :: "string \<Rightarrow> string \<Rightarrow> bool"
  export_service :: "export_args \<Rightarrow> exn + string"

datatype controller_call = PermissionCheck string string | ExportService export_args

definition hasPermissions :: "export_env \<Rightarrow> ctx \<Rightarrow> bool" where
  "hasPermissions xenv c = can_read xenv (userAbility c) (slug (request_body c))"

definition service_args :: "export_body \<Rightarrow> export_args" where
  "service_args b =
     \<lparr>arg_slug = slug b, arg_search = search b, arg_applySearch = applySearch b,
      arg_exportFormat = exportFormat b, arg_relationsAsId = relationsAsId b,
      arg_deepness = (case deepness b of None \<Rightarrow> 5 | Some n \<Rightarrow> n)\<rparr>"

text \<open>
  The result of \<open>exportData\<close>: the promise of the handler, the context it leaves, and
  the calls it made. (The module exports \<open>handleAsyncError(exportData)\<close>; the wrapper is
  not among the files at hand and is not part of the model.)
\<close>

definition exportData :: "export_env \<Rightarrow> ctx \<Rightarrow> unit promise \<times> ctx \<times> controller_call list" where
  "exportData xenv c =
     (let checked = [PermissionCheck (userAbility c) (slug (request_body c))]
      in if \<not> hasPermissions xenv c then (Resolved (), c\<lparr>ctx_reply := Forbidden\<rparr>, checked)
         else
           (case export_service xenv (service_args (request_body c)) of
              Inl err \<Rightarrow> (Rejected err, c, checked @ [ExportService (service_args (request_body c))])
            | Inr data \<Rightarrow>
                (Resolved (), c\<lparr>ctx_reply := Body data\<rparr>,
                 checked @ [ExportService (service_args (request_body c))])))"

definition service_calls :: "controller_call list \<Rightarrow> controller_call list" where
  "service_calls cs = filter (\<lambda>c. case c of ExportService a \<Rightarrow> True | _ \<Rightarrow> False) cs"

section \<open>An environment for the examples\<close>

text \<open>
  The examples run in one small environment. Its library functions are written for the
  URLs of the examples only: absolute \<open>https\<close> URLs of lower-case letters, digits,
  \<open>/\<close>, \<open>.\<close>, \<open>-\<close> and \<open>_\<close>, on which they return what Node returns
  (\<open>decodeURIComponent\<close> changes nothing, the pathname starts at the first \<open>/\<close> after the
  host, \<open>slugify\<close> turns each run of other characters into one separator and drops the
  separators at both ends). The media store of the example names an uploaded file as
  Strapi's upload service does: the slug of the name without its extension, \<open>_\<close>, and
  a suffix.
\<close>

definition example_decode :: "string \<Rightarrow> exn + string" where
  "example_decode s = (if CHR ''%'' \<in> set s then Inl (URIError s) else Inr s)"

definition example_pathname :: "string \<Rightarrow> exn + string" where
  "example_pathname s =
     (if startsWith s ''https://''
      then (let p = takeWhile (\<lambda>c. c \<notin> set ''?#'') (dropWhile (\<lambda>c. c \<notin> set ''/?#'') (drop 8 s))
            in Inr (if p = [] then ''/'' else p))
      else Inl (InvalidURL s))"

definition alphanumeric :: "char \<Rightarrow> bool" where
  "alphanumeric c =
     (c \<in> set ''abcdefghijklmnopqrstuvwxyzABCDEFGHIJKLMNOPQRSTUVWXYZ0123456789'')"

fun squeeze :: "char \<Rightarrow> string \<Rightarrow> string" where
  "squeeze c (x # y # zs) = (if x = c \<and> y = c then squeeze c (y # zs) else x # squeeze c (y # zs))"
| "squeeze c xs = xs"

definition example_slugify :: "string \<Rightarrow> string" where
  "example_slugify s =
     trim (squeeze CHR ''_'' (map (\<lambda>c. if alphanumeric c then c else CHR ''_'') s)) ''_''"

definition digit_value :: "char \<Rightarrow> int option" where
  "digit_value c = map_of (zip ''0123456789'' [0, 1, 2, 3, 4, 5, 6, 7, 8, 9]) c"

fun decimal :: "int \<Rightarrow> string \<Rightarrow> int option" where
  "decimal n [] = Some n"
| "decimal n (c # cs) = (case digit_value c of None \<Rightarrow> None | Some d \<Rightarrow> decimal (10 * n + d) cs)"

definition example_parseInt :: "string option \<Rightarrow> int option" where
  "example_parseInt v = (case v of None \<Rightarrow> None | Some s \<Rightarrow> if s = [] then None else decimal 0 s)"

definition example_request :: "string option \<Rightarrow> request_result" where
  "example_request url =
     (if url = Some ''https://x/y/pic.png''
      then Responded \<lparr>statusCode = 200, content_type = Some ''image/png; charset=binary'',
                      content_length = Some ''3'', res_body = ''png''\<rparr>
      else if url = Some ''https://x/gone.png''
      then Responded \<lparr>statusCode = 404, content_type = Some ''text/html'',
                      content_length = Some ''9'', res_body = ''not found''\<rparr>
      else RequestFailed (RequestError ''ENOTFOUND''))"

definition example_upload :: "upload_request \<Rightarrow> stored_file list \<Rightarrow> exn + (stored_file list \<times> stored_file list)" where
  "example_upload r rows =
     (let n = info_name (up_fileInfo r);
          dot = lastIndexOf n CHR ''.'';
          base = (if dot < 0 then n else substring n 0 dot);
          file = \<lparr>file_id = int (length rows) + 1,
                  file_hash = example_slugify base @ ''_'' @ replicate (Suc (length rows)) CHR ''0'',
                  file_ext = (if dot < 0 then [] else substring_from n dot),
                  file_name = n\<rparr>
      in if tf_path (up_files r) = [] then Inl (UploadError ''no file'')
         else Inr ([file], rows @ [file]))"

definition example_env :: env where
  "example_env =
     \<lparr>decodeURIComponent = example_decode,
      url_pathname = example_pathname,
      slugify = example_slugify,
      parseInt = example_parseInt,
      request = example_request,
      tmpdir = ''/tmp'',
      mkdtemp = (\<lambda>prefix n. prefix @ replicate (Suc n) CHR ''X''),
      write_fails = (\<lambda>p. False),
      upload = example_upload\<rparr>"

definition empty_world :: world where
  "empty_world = \<lparr>store = [], disk = {}, tmp_seq = 0, trace = []\<rparr>"

definition url_only :: "string \<Rightarrow> descriptor" where
  "url_only u =
     \<lparr>d_id = None, d_url = Some u, d_name = None, d_alternativeText = None, d_caption = None\<rparr>"

definition logo_file :: stored_file where
  "logo_file = \<lparr>file_id = 1, file_hash = ''logo_0'', file_ext = ''.png'', file_name = ''logo.png''\<rparr>"

definition exe_with_name :: descriptor where
  "exe_with_name =
     \<lparr>d_id = None, d_url = Some ''https://x/y/setup.exe'', d_name = Some ''logo.png'',
      d_alternativeText = None, d_caption = None\<rparr>"

definition dash_slug_file :: stored_file where
  "dash_slug_file =
     \<lparr>file_id = 1, file_hash = ''y-pic_0'', file_ext = ''.png'', file_name = ''y-pic.png''\<rparr>"

definition first_resolution :: "stored_file option promise \<times> world" where
  "first_resolution =
     importByUrl example_env (url_only ''https://x/y/pic.png'') [''images''] ''admin'' empty_world"

definition second_resolution :: "stored_file option promise \<times> world" where
  "second_resolution =
     importByUrl example_env (url_only ''https://x/y/pic.png'') [''images''] ''admin''
       (snd first_resolution)"

definition pdf_file :: stored_file where
  "pdf_file = \<lparr>file_id = 7, file_hash = ''doc_0'', file_ext = ''.pdf'', file_name = ''doc.pdf''\<rparr>"

definition admin_only :: export_env where
  "admin_only =
     \<lparr>can_read = (\<lambda>ability model. ability = ''admin''),
      export_service = (\<lambda>a. Inr ''[]'')\<rparr>"

definition article_request :: "string \<Rightarrow> ctx" where
  "article_request ability =
     \<lparr>request_body = \<lparr>slug = ''api::article.article'', search = [], applySearch = False,
                      exportFormat = ''json'', relationsAsId = False, deepness = None\<rparr>,
      userAbility = ability,
      ctx_reply = NoReply\<rparr>"

section \<open>Basic facts\<close>

lemma emit_fields [simp]:
  "trace (emit e w) = trace w @ [e]"
  "store (emit e w) = store w"
  "disk (emit e w) = disk w"
  "tmp_seq (emit e w) = tmp_seq w"
  by (simp_all add: emit_def)

lemma calls_since_append: "trace w' = trace w @ es \<Longrightarrow> calls_since w w' = es"
  by (simp add: calls_since_def)

lemma calls_since_self [simp]: "calls_since w w = []"
  by (simp add: calls_since_def)

lemma calls_since_emit [simp]: "calls_since w (emit e w) = [e]"
  by (simp add: calls_since_def)

lemma await_Resolved [simp]: "await (Resolved v, w) k = k v w"
  and await_Rejected [simp]: "await (Rejected e, w) k = (Rejected e, w)"
  and await_Pending [simp]: "await (Pending, w) k = (Pending, w)"
  by (simp_all add: await_def)

lemma await_return: "await m (\<lambda>file w'. (Resolved file, w')) = m"
  by (simp add: await_def split: prod.splits promise.splits)

lemma findFile_by_id:
  "findFile \<lparr>flt_id = Some i, flt_hash = None, flt_name = None\<rparr> w =
     (if i = 0 then (None, w) else (find (\<lambda>x. file_id x = i) (store w), emit (FindOne i) w))"
  by (simp add: findFile_def truthy_num_def truthy_def)

lemma findFile_by_name:
  "findFile \<lparr>flt_id = None, flt_hash = None, flt_name = Some n\<rparr> w =
     (if n = [] then (None, w) else (find (\<lambda>x. file_name x = n) (store w), emit (FindManyName n) w))"
  by (simp add: findFile_def truthy_num_def truthy_def)

lemma findFile_by_hash:
  "findFile \<lparr>flt_id = None, flt_hash = Some h, flt_name = None\<rparr> w =
     (if h = [] then (None, w)
      else (find (\<lambda>x. startsWith (file_hash x) (h @ ''_'')) (store w),
            emit (FindManyHash (h @ ''_'')) w))"
  by (simp add: findFile_def truthy_num_def truthy_def)

section \<open>The extension allow check\<close>

lemma map_throwing_known:
  "known_types ts \<Longrightarrow>
   map_throwing getFileTypeChecker ts = Inr (map (\<lambda>t. the (fileTypeCheckers t)) ts)"
  by (induction ts) (auto simp: known_types_def getFileTypeChecker_def fileTypeCheckers_def)

lemma isExtensionAllowed_known:
  "known_types ts \<Longrightarrow>
   isExtensionAllowed ext ts = Inr (list_ex (\<lambda>t. the (fileTypeCheckers t) ext) ts)"
  by (simp add: isExtensionAllowed_def map_throwing_known list_ex_iff)

text \<open>A type that is not one of the four makes the check throw, whatever the others accept.\<close>

lemma isExtensionAllowed_unknown_type:
  "isExtensionAllowed ''png'' [''files'', ''documents''] = Inl (FileTypeNotHandled ''documents'')"
  by (simp add: isExtensionAllowed_def getFileTypeChecker_def fileTypeCheckers_def)

text \<open>
  C8. For a list of file types, the check accepts an extension exactly when some entry
  accepts it: \<open>audios\<close> accepts mp3, wav and ogg, \<open>images\<close> accepts png, gif, jpg, jpeg, svg,
  bmp, tif and tiff, \<open>videos\<close> accepts mp4 and avi, and \<open>files\<close> accepts every extension.
\<close>

theorem isExtensionAllowed_iff:
  assumes "known_types allowedFileTypes"
  shows "isExtensionAllowed ext allowedFileTypes = Inr
     ((''audios'' \<in> set allowedFileTypes \<and> ext \<in> {''mp3'', ''wav'', ''ogg''}) \<or>
      (''images'' \<in> set allowedFileTypes \<and>
         ext \<in> {''png'', ''gif'', ''jpg'', ''jpeg'', ''svg'', ''bmp'', ''tif'', ''tiff''}) \<or>
      (''videos'' \<in> set allowedFileTypes \<and> ext \<in> {''mp4'', ''avi''}) \<or>
      ''files'' \<in> set allowedFileTypes)"
proof -
  have "list_ex (\<lambda>t. the (fileTypeCheckers t) ext) allowedFileTypes =
     ((''audios'' \<in> set allowedFileTypes \<and> ext \<in> {''mp3'', ''wav'', ''ogg''}) \<or>
      (''images'' \<in> set allowedFileTypes \<and>
         ext \<in> {''png'', ''gif'', ''jpg'', ''jpeg'', ''svg'', ''bmp'', ''tif'', ''tiff''}) \<or>
      (''videos'' \<in> set allowedFileTypes \<and> ext \<in> {''mp4'', ''avi''}) \<or>
      ''files'' \<in> set allowedFileTypes)"
    using assms
  proof (induction allowedFileTypes)
    case Nil
    then show ?case by simp
  next
    case (Cons t ts)
    then have k: "known_types ts" and t: "t \<in> set [''audios'', ''files'', ''images'', ''videos'']"
      by (simp_all add: known_types_def)
    from t consider "t = ''audios''" | "t = ''files''" | "t = ''images''" | "t = ''videos''"
      by auto
    then show ?case
    proof cases
      case 1
      then show ?thesis using Cons.IH[OF k]
        by (auto simp: fileTypeCheckers_def ALLOWED_AUDIOS_def)
    next
      case 2
      then show ?thesis using Cons.IH[OF k]
        by (auto simp: fileTypeCheckers_def)
    next
      case 3
      then show ?thesis using Cons.IH[OF k]
        by (auto simp: fileTypeCheckers_def ALLOWED_IMAGES_def)
    next
      case 4
      then show ?thesis using Cons.IH[OF k]
        by (auto simp: fileTypeCheckers_def ALLOWED_VIDEOS_def)
    qed
  qed
  then show ?thesis using assms by (simp add: isExtensionAllowed_known)
qed

theorem isExtensionAllowed_iff_witness:
  "known_types [''images'', ''videos''] \<and>
   isExtensionAllowed ''jpeg'' [''images'', ''videos''] = Inr True \<and>
   isExtensionAllowed ''avi'' [''images'', ''videos''] = Inr True \<and>
   isExtensionAllowed ''mp3'' [''images'', ''videos''] = Inr False \<and>
   isExtensionAllowed ''exe'' [''files''] = Inr True"
  using isExtensionAllowed_iff [of "[''images'', ''videos'']" "''jpeg''"]
    isExtensionAllowed_iff [of "[''images'', ''videos'']" "''avi''"]
    isExtensionAllowed_iff [of "[''images'', ''videos'']" "''mp3''"]
    isExtensionAllowed_iff [of "[''files'']" "''exe''"]
  by (simp add: known_types_def)

section \<open>Stored files of a disallowed type\<close>

text \<open>
  C6. When the lookup by id or by exact name finds a stored file whose extension the
  allow check rejects, \<open>importById\<close> and \<open>importByName\<close> resolve with null: the promise is
  resolved, not rejected, and the lookup is the only call made.
\<close>

theorem disallowed_stored_file_is_null:
  assumes "isExtensionAllowed (substring_from (file_ext file) 1) allowedFileTypes = Inr False"
  shows "(find (\<lambda>x. file_id x = i) (store w) = Some file \<longrightarrow>
            importById i allowedFileTypes w =
              (Resolved None, if i = 0 then w else emit (FindOne i) w)) \<and>
         (find (\<lambda>x. file_name x = n) (store w) = Some file \<longrightarrow>
            importByName n allowedFileTypes w =
              (Resolved None, if n = [] then w else emit (FindManyName n) w))"
  using assms
  by (simp add: importById_def importByName_def findFile_by_id findFile_by_name
      null_unless_allowed_def)

theorem disallowed_stored_file_is_null_witness:
  "importById 7 [''images''] (empty_world\<lparr>store := [pdf_file]\<rparr>) =
     (Resolved None, emit (FindOne 7) (empty_world\<lparr>store := [pdf_file]\<rparr>)) \<and>
   importByName ''doc.pdf'' [''images''] (empty_world\<lparr>store := [pdf_file]\<rparr>) =
     (Resolved None, emit (FindManyName ''doc.pdf'') (empty_world\<lparr>store := [pdf_file]\<rparr>))"
proof -
  have h: "isExtensionAllowed (substring_from (file_ext pdf_file) 1) [''images''] = Inr False"
    by (simp add: isExtensionAllowed_def getFileTypeChecker_def fileTypeCheckers_def
        ALLOWED_IMAGES_def substring_from_def clamp_index_def pdf_file_def)
  show ?thesis
    using disallowed_stored_file_is_null [OF h, of 7 "empty_world\<lparr>store := [pdf_file]\<rparr>" "''doc.pdf''"]
    by (simp add: pdf_file_def)
qed

section \<open>The resolution order\<close>

lemma first_match_Cons:
  "first_match (b # bs) w =
     await (b w) (\<lambda>file w'. if file = None then first_match bs w' else (Resolved file, w'))"
  by (simp add: await_def split: prod.splits promise.splits option.splits)

lemma first_match_single: "first_match [b] w = b w"
  by (simp split: prod.splits promise.splits option.splits)

text \<open>
  C7. For a reference given as an object, \<open>findOrImportFile\<close> tries the id when the object
  has one, then the url when no file was obtained and the object has one, then the name
  when no file was obtained and the object has one, and returns the first file obtained.
\<close>

theorem findOrImportFile_resolution_order:
  "findOrImportFile env (JsObject d) user allowedFileTypes w =
     first_match (resolution_order env d user allowedFileTypes) w"
proof -
  have name_step:
    "await (case d_name d of
              Some n \<Rightarrow> if fl = None \<and> n \<noteq> [] then importByName n allowedFileTypes w2
                        else (Resolved fl, w2)
            | None \<Rightarrow> (Resolved fl, w2)) (\<lambda>file w3. (Resolved file, w3)) =
     (if fl = None
      then first_match (case d_name d of
                          None \<Rightarrow> []
                        | Some n \<Rightarrow> if n = [] then [] else [importByName n allowedFileTypes]) w2
      else (Resolved fl, w2))" for fl w2
    by (simp add: first_match_single await_return del: first_match.simps(2)
        split: option.splits)
  have url_step:
    "await (if fl = None \<and> truthy (d_url d)
            then importByUrl env d allowedFileTypes user w1
            else (Resolved fl, w1)) (\<lambda>file w2.
              if file = None then first_match bs w2 else (Resolved file, w2)) =
     (if fl = None
      then first_match ((if truthy (d_url d) then [importByUrl env d allowedFileTypes user] else []) @ bs) w1
      else (Resolved fl, w1))" for fl w1 bs
    by (simp add: first_match_Cons del: first_match.simps(2))
  have id_step:
    "await (case d_id d of
              Some i \<Rightarrow> if i \<noteq> 0 then importById i allowedFileTypes w
                        else (Resolved None, w)
            | None \<Rightarrow> (Resolved None, w)) (\<lambda>file w1.
              if file = None then first_match bs w1 else (Resolved file, w1)) =
     first_match ((case d_id d of
                     None \<Rightarrow> []
                   | Some i \<Rightarrow> if i = 0 then [] else [importById i allowedFileTypes]) @ bs) w" for bs
    by (simp add: first_match_Cons del: first_match.simps(2) split: option.splits)
  show ?thesis
    unfolding findOrImportFile_def resolution_order_def file_entry.case name_step url_step id_step
    by (rule refl)
qed

section \<open>A bare string\<close>

text \<open>
  C10. A reference given as a bare string resolves to null whatever the string is: the
  url destructured from a string is \<open>undefined\<close>, which \<open>decodeURIComponent\<close> turns into the
  string \<open>undefined\<close> and \<open>new URL\<close> rejects; the error is logged in the catch branch of
  \<open>isValidFileUrl\<close>, and no lookup, fetch or upload is made.
\<close>

theorem bare_string_is_null:
  assumes "decodeURIComponent env ''undefined'' = Inr ''undefined''"
    and "url_pathname env ''undefined'' = Inl e"
  shows "findOrImportFile env (JsString s) user allowedFileTypes w =
           (Resolved None, emit (LogError e) w)"
  using assms
  by (simp add: findOrImportFile_def importByUrl_def string_properties_def isValidFileUrl_def
      isValidFileUrl_try_def getFileDataFromRawUrl_def to_string_def)

theorem bare_string_is_null_witness:
  "findOrImportFile example_env (JsString ''https://x/y/pic.png'') ''admin'' [''images''] empty_world =
     (Resolved None, emit (LogError (InvalidURL ''undefined'')) empty_world)"
proof -
  have d: "decodeURIComponent example_env ''undefined'' = Inr ''undefined''"
    by (simp add: example_env_def example_decode_def)
  have p: "url_pathname example_env ''undefined'' = Inl (InvalidURL ''undefined'')"
    by (simp add: example_env_def example_pathname_def startsWith_def)
  show ?thesis
    using bare_string_is_null [OF d p] by simp
qed

section \<open>The permission gate of the export controller\<close>

text \<open>
  C9. When the permission checker refuses read access to the collection of the request,
  \<open>exportData\<close> answers with the forbidden reply and the export service is not called;
  whenever the export service is called, the permission check was made before it and
  passed.
\<close>

theorem exportData_gate:
  "(\<not> can_read xenv (userAbility c) (slug (request_body c)) \<longrightarrow>
      exportData xenv c =
        (Resolved (), c\<lparr>ctx_reply := Forbidden\<rparr>,
         [PermissionCheck (userAbility c) (slug (request_body c))])) \<and>
   (service_calls (snd (snd (exportData xenv c))) \<noteq> [] \<longrightarrow>
      can_read xenv (userAbility c) (slug (request_body c)) \<and>
      snd (snd (exportData xenv c)) =
        [PermissionCheck (userAbility c) (slug (request_body c)),
         ExportService (service_args (request_body c))])"
  by (auto simp: exportData_def hasPermissions_def service_calls_def Let_def split: sum.splits)

theorem exportData_gate_witness:
  "exportData admin_only (article_request ''guest'') =
     (Resolved (), (article_request ''guest'')\<lparr>ctx_reply := Forbidden\<rparr>,
      [PermissionCheck ''guest'' ''api::article.article'']) \<and>
   snd (snd (exportData admin_only (article_request ''admin''))) =
     [PermissionCheck ''admin'' ''api::article.article'',
      ExportService \<lparr>arg_slug = ''api::article.article'', arg_search = [], arg_applySearch = False,
                     arg_exportFormat = ''json'', arg_relationsAsId = False, arg_deepness = 5\<rparr>]"
proof -
  have refused: "\<not> can_read admin_only (userAbility (article_request ''guest''))
                    (slug (request_body (article_request ''guest'')))"
    by (simp add: admin_only_def article_request_def)
  have called: "service_calls (snd (snd (exportData admin_only (article_request ''admin'')))) \<noteq> []"
    by (simp add: exportData_def hasPermissions_def service_calls_def admin_only_def
        article_request_def)
  show ?thesis
    using exportData_gate [of admin_only "article_request ''guest''"]
      exportData_gate [of admin_only "article_request ''admin''"] refused called
    by (simp add: article_request_def service_args_def)
qed

section \<open>Temporary files\<close>

lemma written_paths_append [simp]: "written_paths (xs @ ys) = written_paths xs @ written_paths ys"
  by (simp add: written_paths_def)

lemma written_paths_simps [simp]:
  "written_paths [] = []"
  "written_paths (WriteFile p # es) = p # written_paths es"
  "written_paths (HttpGet u # es) = written_paths es"
  "written_paths (Mkdtemp q # es) = written_paths es"
  "written_paths (RmFile q # es) = written_paths es"
  "written_paths (Upload r # es) = written_paths es"
  "written_paths (LogError x # es) = written_paths es"
  "written_paths (UnhandledRejection x # es) = written_paths es"
  "written_paths (FindOne i # es) = written_paths es"
  "written_paths (FindManyHash h # es) = written_paths es"
  "written_paths (FindManyName n # es) = written_paths es"
  by (simp_all add: written_paths_def)

lemma writeFile_effect:
  "writeFile env n content w = (r, w') \<Longrightarrow>
   store w' = store w \<and>
   (case r of
      Inl e \<Rightarrow> disk w' = disk w \<and> (\<exists>q. trace w' = trace w @ [Mkdtemp q, LogError e])
    | Inr p \<Rightarrow> p \<noteq> [] \<and> disk w' = insert p (disk w) \<and> (\<exists>q. trace w' = trace w @ [Mkdtemp q, WriteFile p]))"
  by (auto simp: writeFile_def Let_def path_join_def split: if_splits)

lemma fetchFile_effect:
  assumes "fetchFile env url w = (r, w')"
  shows "store w' = store w \<and>
   (\<exists>es. trace w' = trace w @ es \<and>
     (case r of
        Resolved f \<Rightarrow> tf_path f \<noteq> [] \<and> disk w' = insert (tf_path f) (disk w) \<and> written_paths es = [tf_path f]
      | Rejected e \<Rightarrow> disk w' = disk w \<and> written_paths es = []
      | Pending \<Rightarrow> disk w' = disk w \<and> written_paths es = []))"
proof (cases "request env url")
  case (RequestFailed err)
  with assms show ?thesis by (auto simp: fetchFile_def Let_def)
next
  case (Responded res)
  show ?thesis
  proof (cases "statusCode res < 200 \<or> 300 \<le> statusCode res")
    case True
    with assms Responded show ?thesis by (auto simp: fetchFile_def Let_def unhandled_def)
  next
    case ok: False
    show ?thesis
    proof (cases "content_type res")
      case None
      with assms Responded ok show ?thesis by (auto simp: fetchFile_def Let_def unhandled_def)
    next
      case (Some ct)
      show ?thesis
      proof (cases "getFileDataFromRawUrl env url")
        case (Inl e)
        with assms Responded ok Some show ?thesis by (auto simp: fetchFile_def Let_def unhandled_def)
      next
        case (Inr fd)
        obtain x w2 where wr: "writeFile env (fd_name fd) (res_body res) (emit (HttpGet url) w) = (x, w2)"
          by (cases "writeFile env (fd_name fd) (res_body res) (emit (HttpGet url) w)")
        from writeFile_effect[OF wr] assms Responded ok Some Inr wr show ?thesis
          by (cases x) (auto simp: fetchFile_def Let_def unhandled_def)
      qed
    qed
  qed
qed

lemma deleteFileIfExists_fields [simp]:
  "store (deleteFileIfExists q w) = store w"
  "p \<noteq> [] \<Longrightarrow> disk (deleteFileIfExists (Some p) w) = disk w - {p}"
  "disk (deleteFileIfExists None w) = disk w"
  "trace (deleteFileIfExists None w) = trace w"
  "trace (deleteFileIfExists (Some p) w) = trace w @ (if p \<noteq> [] \<and> p \<in> disk w then [RmFile p] else [])"
  by (simp_all add: deleteFileIfExists_def split: option.splits)

lemma importFile_Pending:
  "fetchFile env (d_url d) w = (Pending, w1) \<Longrightarrow> importFile env d user w = (Pending, w1)"
  by (simp add: importFile_def)

lemma importFile_Rejected:
  "fetchFile env (d_url d) w = (Rejected e, w1) \<Longrightarrow>
   importFile env d user w = (Rejected e, emit (LogError e) w1)"
  by (simp add: importFile_def deleteFileIfExists_def)

lemma importFile_upload_fails:
  "fetchFile env (d_url d) w = (Resolved tmp, w1) \<Longrightarrow>
   upload env (upload_args d tmp user) (store w1) = Inl err \<Longrightarrow>
   importFile env d user w =
     (Rejected err,
      deleteFileIfExists (Some (tf_path tmp))
        (emit (LogError err) (emit (Upload (upload_args d tmp user)) w1)))"
  by (simp add: importFile_def Let_def)

lemma importFile_uploaded:
  "fetchFile env (d_url d) w = (Resolved tmp, w1) \<Longrightarrow>
   upload env (upload_args d tmp user) (store w1) = Inr (uploaded, rows) \<Longrightarrow>
   importFile env d user w =
     (Resolved (case uploaded of [] \<Rightarrow> None | uploadedFile # _ \<Rightarrow> Some uploadedFile),
      deleteFileIfExists (Some (tf_path tmp))
        ((emit (Upload (upload_args d tmp user)) w1)\<lparr>store := rows\<rparr>))"
  by (simp add: importFile_def Let_def)

text \<open>
  C5. Whatever \<open>importFile\<close> does (the upload succeeds, the upload fails, the fetch fails
  or is never settled), no file the fetch wrote is on disk afterwards, and the disk holds
  no file it did not hold before: the temporary file is deleted in the \<open>finally\<close> block
  after a successful and after a failed upload, and on the other paths none was written.
\<close>

theorem importFile_deletes_temp_file:
  assumes "importFile env d user w = (r, w')"
  shows "set (written_paths (calls_since w w')) \<inter> disk w' = {} \<and> disk w' \<subseteq> disk w"
proof -
  obtain fr w1 where f: "fetchFile env (d_url d) w = (fr, w1)"
    by (cases "fetchFile env (d_url d) w")
  from fetchFile_effect[OF f] obtain es where
    tr: "trace w1 = trace w @ es" and
    eff: "(case fr of
        Resolved f \<Rightarrow> tf_path f \<noteq> [] \<and> disk w1 = insert (tf_path f) (disk w) \<and> written_paths es = [tf_path f]
      | Rejected e \<Rightarrow> disk w1 = disk w \<and> written_paths es = []
      | Pending \<Rightarrow> disk w1 = disk w \<and> written_paths es = [])"
    by blast
  show ?thesis
  proof (cases fr)
    case Pending
    with assms f have "w' = w1" by (simp add: importFile_Pending)
    with tr eff Pending show ?thesis by (simp add: calls_since_def)
  next
    case (Rejected e)
    with assms f have "w' = emit (LogError e) w1" by (simp add: importFile_Rejected)
    with tr eff Rejected show ?thesis by (simp add: calls_since_def)
  next
    case (Resolved tmp)
    with eff have p: "tf_path tmp \<noteq> []" and d1: "disk w1 = insert (tf_path tmp) (disk w)"
      and wp: "written_paths es = [tf_path tmp]" by simp_all
    show ?thesis
    proof (cases "upload env (upload_args d tmp user) (store w1)")
      case (Inl err)
      with assms f Resolved have "w' = deleteFileIfExists (Some (tf_path tmp))
        (emit (LogError err) (emit (Upload (upload_args d tmp user)) w1))"
        by (simp add: importFile_upload_fails)
      with tr p d1 wp show ?thesis by (auto simp: calls_since_def)
    next
      case (Inr res)
      obtain uploaded rows where "res = (uploaded, rows)" by (cases res)
      with Inr assms f Resolved have "w' = deleteFileIfExists (Some (tf_path tmp))
        ((emit (Upload (upload_args d tmp user)) w1)\<lparr>store := rows\<rparr>)"
        by (simp add: importFile_uploaded)
      with tr p d1 wp show ?thesis by (auto simp: calls_since_def)
    qed
  qed
qed

theorem importFile_deletes_temp_file_witness:
  "written_paths (calls_since empty_world
      (snd (importFile example_env (url_only ''https://x/y/pic.png'') ''admin'' empty_world))) =
     [''/tmp/strapi-upload-X/y-pic.png''] \<and>
   disk (snd (importFile example_env (url_only ''https://x/y/pic.png'') ''admin'' empty_world)) = {}"
proof -
  have run: "importFile example_env (url_only ''https://x/y/pic.png'') ''admin'' empty_world =
    (fst (importFile example_env (url_only ''https://x/y/pic.png'') ''admin'' empty_world),
     snd (importFile example_env (url_only ''https://x/y/pic.png'') ''admin'' empty_world))"
    by simp
  have written: "written_paths (calls_since empty_world
      (snd (importFile example_env (url_only ''https://x/y/pic.png'') ''admin'' empty_world))) =
     [''/tmp/strapi-upload-X/y-pic.png'']"
    by code_simp
  have "disk empty_world = {}" by (simp add: empty_world_def)
  with importFile_deletes_temp_file [OF run] written show ?thesis by simp
qed

section \<open>URLs of a disallowed type\<close>

lemma no_fetch_or_upload_refl [simp]: "no_fetch_or_upload w w"
  by (simp add: no_fetch_or_upload_def)

lemma no_fetch_or_upload_emit:
  "\<not> is_fetch_or_upload e \<Longrightarrow> no_fetch_or_upload w (emit e w)"
  by (simp add: no_fetch_or_upload_def)

lemma no_fetch_or_upload_trans:
  assumes "no_fetch_or_upload w w1" and "no_fetch_or_upload w1 w2"
  shows "no_fetch_or_upload w w2"
proof -
  from assms(1) have t1: "trace w1 = trace w @ calls_since w w1"
    unfolding no_fetch_or_upload_def calls_since_def
    by (metis append_take_drop_id)
  from assms(2) have t2: "trace w2 = trace w1 @ calls_since w1 w2"
    unfolding no_fetch_or_upload_def calls_since_def
    by (metis append_take_drop_id)
  from t1 t2 have t: "trace w2 = trace w @ (calls_since w w1 @ calls_since w1 w2)" by simp
  then have "calls_since w w2 = calls_since w w1 @ calls_since w1 w2"
    by (rule calls_since_append)
  with assms t show ?thesis
    by (simp add: no_fetch_or_upload_def)
qed

lemma snd_null_unless_allowed: "snd (null_unless_allowed ts (x, w)) = w"
  by (simp add: null_unless_allowed_def split: option.splits sum.splits)

lemma importById_no_fetch: "no_fetch_or_upload w (snd (importById i ts w))"
  by (simp add: importById_def findFile_by_id snd_null_unless_allowed
      no_fetch_or_upload_emit is_fetch_or_upload_def)

lemma importByName_no_fetch: "no_fetch_or_upload w (snd (importByName n ts w))"
  by (simp add: importByName_def findFile_by_name snd_null_unless_allowed
      no_fetch_or_upload_emit is_fetch_or_upload_def)

lemma getHashPart_pathname:
  "decodeURIComponent env (to_string url) = Inr decoded \<Longrightarrow>
   url_pathname env decoded = Inr pathname \<Longrightarrow>
   getHashPart env url =
     Inr (slugify env
       (or_string (Some (substring pathname 0 (lastIndexOf pathname CHR ''.''))) pathname))"
  by (simp add: getHashPart_def)

lemma getFileDataFromRawUrl_pathname:
  "decodeURIComponent env (to_string url) = Inr decoded \<Longrightarrow>
   url_pathname env decoded = Inr pathname \<Longrightarrow>
   getFileDataFromRawUrl env url =
     Inr \<lparr>fd_name = replace_all CHR ''/'' CHR ''-'' (trim (toLowerCase pathname) ''/''),
          fd_hashPart = slugify env
            (or_string (Some (substring pathname 0 (lastIndexOf pathname CHR ''.''))) pathname),
          fd_extension = toLowerCase (split_pop CHR ''.'' pathname)\<rparr>"
  by (simp add: getFileDataFromRawUrl_def getHashPart_pathname)

lemma importByUrl_disallowed:
  assumes "decodeURIComponent env (to_string (d_url d)) = Inr decoded"
    and "url_pathname env decoded = Inr pathname"
    and "isExtensionAllowed (toLowerCase (split_pop CHR ''.'' pathname)) ts = Inr False"
  shows "importByUrl env d ts user w = (Resolved None, w)"
  using assms
  by (simp add: importByUrl_def isValidFileUrl_def isValidFileUrl_try_def
      getFileDataFromRawUrl_pathname getHashPart_pathname)

text \<open>
  C2, as the claim states it, fails: a reference that carries a url with a disallowed
  extension and also a name is looked up by that name after the url was rejected, and
  resolves to the stored file of that name. Nothing is fetched.
\<close>

theorem exe_with_name_resolves_by_name:
  "getFileDataFromRawUrl example_env (d_url exe_with_name) =
     Inr \<lparr>fd_name = ''y-setup.exe'', fd_hashPart = ''y_setup'', fd_extension = ''exe''\<rparr> \<and>
   isExtensionAllowed ''exe'' [''images''] = Inr False \<and>
   findOrImportFile example_env (JsObject exe_with_name) ''admin'' [''images'']
       (empty_world\<lparr>store := [logo_file]\<rparr>) =
     (Resolved (Some logo_file),
      \<lparr>store = [logo_file], disk = {}, tmp_seq = 0, trace = [FindManyName ''logo.png'']\<rparr>)"
  by code_simp

text \<open>
  C2, amended. For a reference whose url has a derived extension (the lower-cased last
  dot-segment of the pathname) that the allow check rejects, \<open>importByUrl\<close> returns null
  and makes no call at all; \<open>findOrImportFile\<close> fetches, writes and uploads nothing for
  it, and returns null when the reference has neither an id nor a name.
\<close>

theorem disallowed_url_is_not_fetched:
  assumes "decodeURIComponent env (to_string (d_url d)) = Inr decoded"
    and "url_pathname env decoded = Inr pathname"
    and "isExtensionAllowed (toLowerCase (split_pop CHR ''.'' pathname)) allowedFileTypes = Inr False"
  shows "importByUrl env d allowedFileTypes user w = (Resolved None, w) \<and>
         no_fetch_or_upload w (snd (findOrImportFile env (JsObject d) user allowedFileTypes w)) \<and>
         (\<not> truthy_num (d_id d) \<and> \<not> truthy (d_name d) \<longrightarrow>
            findOrImportFile env (JsObject d) user allowedFileTypes w = (Resolved None, w))"
proof -
  note url = importByUrl_disallowed [OF assms]
  define first where "first = (case d_id d of
                   Some i \<Rightarrow> if i \<noteq> 0 then importById i allowedFileTypes w
                             else (Resolved None, w)
                 | None \<Rightarrow> (Resolved None, w))"
  have q1: "no_fetch_or_upload w (snd first)"
    by (simp add: first_def importById_no_fetch split: option.splits)
  have rest: "no_fetch_or_upload w1 (snd (
          await (if fl = None \<and> truthy (d_url d)
                 then importByUrl env d allowedFileTypes user w1
                 else (Resolved fl, w1)) (\<lambda>file w2.
          await (case d_name d of
                   Some n \<Rightarrow> if file = None \<and> n \<noteq> [] then importByName n allowedFileTypes w2
                             else (Resolved file, w2)
                 | None \<Rightarrow> (Resolved file, w2)) (\<lambda>file w3.
          (Resolved file, w3)))))" for fl w1
    by (simp add: url await_return importByName_no_fetch split: option.splits)
  have whole: "findOrImportFile env (JsObject d) user allowedFileTypes w =
      await first (\<lambda>file w1.
          await (if file = None \<and> truthy (d_url d)
                 then importByUrl env d allowedFileTypes user w1
                 else (Resolved file, w1)) (\<lambda>file w2.
          await (case d_name d of
                   Some n \<Rightarrow> if file = None \<and> n \<noteq> [] then importByName n allowedFileTypes w2
                             else (Resolved file, w2)
                 | None \<Rightarrow> (Resolved file, w2)) (\<lambda>file w3.
          (Resolved file, w3))))"
    by (simp add: findOrImportFile_def first_def)
  have quiet: "no_fetch_or_upload w (snd (findOrImportFile env (JsObject d) user allowedFileTypes w))"
  proof (cases first)
    case (Pair r w1)
    with q1 have a: "no_fetch_or_upload w w1" by simp
    show ?thesis
    proof (cases r)
      case (Resolved fl)
      have "no_fetch_or_upload w1 (snd (findOrImportFile env (JsObject d) user allowedFileTypes w))"
        unfolding whole Pair Resolved await_Resolved by (rule rest)
      with a show ?thesis by (rule no_fetch_or_upload_trans)
    next
      case (Rejected e)
      with Pair whole a show ?thesis by simp
    next
      case Pending
      with Pair whole a show ?thesis by simp
    qed
  qed
  have alone: "\<not> truthy_num (d_id d) \<and> \<not> truthy (d_name d) \<longrightarrow>
            findOrImportFile env (JsObject d) user allowedFileTypes w = (Resolved None, w)"
    by (auto simp: findOrImportFile_def truthy_num_def truthy_def url split: option.splits)
  from url quiet alone show ?thesis by blast
qed

theorem disallowed_url_is_not_fetched_witness:
  "importByUrl example_env exe_with_name [''images''] ''admin'' (empty_world\<lparr>store := [logo_file]\<rparr>) =
     (Resolved None, empty_world\<lparr>store := [logo_file]\<rparr>) \<and>
   no_fetch_or_upload (empty_world\<lparr>store := [logo_file]\<rparr>)
     (snd (findOrImportFile example_env (JsObject exe_with_name) ''admin'' [''images'']
        (empty_world\<lparr>store := [logo_file]\<rparr>))) \<and>
   findOrImportFile example_env (JsObject (url_only ''https://x/y/setup.exe'')) ''admin'' [''images'']
       (empty_world\<lparr>store := [logo_file]\<rparr>) =
     (Resolved None, empty_world\<lparr>store := [logo_file]\<rparr>)"
proof -
  have d1: "decodeURIComponent example_env (to_string (d_url exe_with_name)) = Inr ''https://x/y/setup.exe''"
    by (simp add: example_env_def example_decode_def exe_with_name_def to_string_def)
  have d2: "decodeURIComponent example_env (to_string (d_url (url_only ''https://x/y/setup.exe''))) =
      Inr ''https://x/y/setup.exe''"
    by (simp add: example_env_def example_decode_def url_only_def to_string_def)
  have p: "url_pathname example_env ''https://x/y/setup.exe'' = Inr ''/y/setup.exe''"
    by (simp add: example_env_def example_pathname_def startsWith_def)
  have x: "isExtensionAllowed (toLowerCase (split_pop CHR ''.'' ''/y/setup.exe'')) [''images''] = Inr False"
    by code_simp
  have alone: "\<not> truthy_num (d_id (url_only ''https://x/y/setup.exe'')) \<and>
               \<not> truthy (d_name (url_only ''https://x/y/setup.exe''))"
    by (simp add: url_only_def truthy_num_def truthy_def)
  show ?thesis
    using disallowed_url_is_not_fetched [OF d1 p x, of "''admin''" "empty_world\<lparr>store := [logo_file]\<rparr>"]
      disallowed_url_is_not_fetched [OF d2 p x, of "''admin''" "empty_world\<lparr>store := [logo_file]\<rparr>"]
      alone
    by simp
qed

section \<open>The content slug and the lookup by hash\<close>

lemma substring_lastIndexOf:
  "substring p 0 (lastIndexOf p CHR ''.'') = without_extension p"
proof (cases "CHR ''.'' \<in> set p")
  case False
  then have dw: "dropWhile (\<lambda>c. c \<noteq> CHR ''.'') (rev p) = []"
    by (auto simp: dropWhile_eq_Nil_conv)
  have "without_extension p = []"
    unfolding without_extension_def dw by simp
  moreover from False have "substring p 0 (lastIndexOf p CHR ''.'') = []"
    by (simp add: substring_def lastIndexOf_def clamp_index_def)
  ultimately show ?thesis by simp
next
  case True
  define tw where "tw = takeWhile (\<lambda>c. c \<noteq> CHR ''.'') (rev p)"
  define dw where "dw = dropWhile (\<lambda>c. c \<noteq> CHR ''.'') (rev p)"
  from True have "dw \<noteq> []" by (simp add: dw_def dropWhile_eq_Nil_conv)
  moreover have "\<not> (hd dw \<noteq> CHR ''.'')" if "dw \<noteq> []"
    using that hd_dropWhile[of "\<lambda>c. c \<noteq> CHR ''.''" "rev p"] by (simp add: dw_def)
  ultimately obtain rest where dw: "dw = CHR ''.'' # rest" by (cases dw) auto
  have "rev p = tw @ dw" by (simp add: tw_def dw_def)
  then have "rev (rev p) = rev (tw @ dw)" by simp
  then have p: "p = rev rest @ CHR ''.'' # rev tw" by (simp add: dw)
  have li: "lastIndexOf p CHR ''.'' = int (length p) - 1 - int (length tw)"
    using True unfolding lastIndexOf_def tw_def by simp
  have len: "int (length p) - 1 - int (length tw) = int (length rest)" by (simp add: p)
  have lp: "length rest \<le> length p" by (simp add: p)
  have "substring p 0 (lastIndexOf p CHR ''.'') = take (length rest) p"
    unfolding li len using lp by (simp add: substring_def clamp_index_def)
  also have "\<dots> = rev rest" by (simp add: p)
  also have "\<dots> = without_extension p" by (simp add: without_extension_def dw_def[symmetric] dw)
  finally show ?thesis .
qed

lemma startsWith_iff: "startsWith s p \<longleftrightarrow> (\<exists>rest. s = p @ rest)"
  by (metis startsWith_def append_eq_conv_conj append_take_drop_id)

text \<open>
  C4, as the claim states it, fails: for \<open>https://x/y/pic.png\<close> the content slug is
  \<open>y_pic\<close>, the lookup \<open>importByUrl\<close> makes is for hashes that start with
  \<open>y-pic.png_\<close>, and a stored file whose hash starts with \<open>y-pic_\<close> is not found: the
  file is fetched and uploaded.
\<close>

theorem lookup_key_is_file_name:
  "getHashPart example_env (Some ''https://x/y/pic.png'') = Inr ''y_pic'' \<and>
   take 1 (trace (snd (importByUrl example_env (url_only ''https://x/y/pic.png'') [''images''] ''admin''
       (empty_world\<lparr>store := [dash_slug_file]\<rparr>)))) = [FindManyHash ''y-pic.png_''] \<and>
   fst (importByUrl example_env (url_only ''https://x/y/pic.png'') [''images''] ''admin''
       (empty_world\<lparr>store := [dash_slug_file]\<rparr>)) =
     Resolved (Some \<lparr>file_id = 2, file_hash = ''y_pic_00'', file_ext = ''.png'',
                     file_name = ''y-pic.png''\<rparr>)"
  by code_simp

text \<open>
  C4, amended. For a URL that parses, the content slug (\<open>hashPart\<close>) is \<open>slugify\<close>, with
  separator \<open>_\<close> and the case kept, of the pathname without its extension (of the whole
  pathname when nothing stands before the last dot); \<open>isValidFileUrl\<close> returns it for a URL
  with an allowed extension; and a lookup by a hash key searches for the first stored file
  whose hash starts with the key followed by an underscore. For \<open>https://x/y/pic.png\<close>
  the slug is \<open>y_pic\<close>.
\<close>

theorem hashPart_is_slug_of_path_without_extension:
  assumes "decodeURIComponent env url = Inr decoded"
    and "url_pathname env decoded = Inr pathname"
  shows "getHashPart env (Some url) =
           Inr (slugify env (if without_extension pathname = [] then pathname
                             else without_extension pathname)) \<and>
         (isExtensionAllowed (toLowerCase (split_pop CHR ''.'' pathname)) allowedFileTypes = Inr True \<longrightarrow>
            cr_isValid (fst (isValidFileUrl env (Some url) allowedFileTypes w)) \<and>
            cf_hashPart (cr_fileData (fst (isValidFileUrl env (Some url) allowedFileTypes w))) =
              Some (slugify env (if without_extension pathname = [] then pathname
                                 else without_extension pathname))) \<and>
         (h \<noteq> [] \<longrightarrow>
            findFile \<lparr>flt_id = None, flt_hash = Some h, flt_name = None\<rparr> w =
              (find (\<lambda>x. \<exists>rest. file_hash x = h @ ''_'' @ rest) (store w),
               emit (FindManyHash (h @ ''_'')) w))"
proof -
  have d: "decodeURIComponent env (to_string (Some url)) = Inr decoded"
    using assms(1) by (simp add: to_string_def)
  have hp: "getHashPart env (Some url) =
           Inr (slugify env (if without_extension pathname = [] then pathname
                             else without_extension pathname))"
    by (simp add: getHashPart_pathname [OF d assms(2)] substring_lastIndexOf or_string_def)
  have valid: "isExtensionAllowed (toLowerCase (split_pop CHR ''.'' pathname)) allowedFileTypes = Inr True \<longrightarrow>
            cr_isValid (fst (isValidFileUrl env (Some url) allowedFileTypes w)) \<and>
            cf_hashPart (cr_fileData (fst (isValidFileUrl env (Some url) allowedFileTypes w))) =
              Some (slugify env (if without_extension pathname = [] then pathname
                                 else without_extension pathname))"
    by (simp add: isValidFileUrl_def isValidFileUrl_try_def
        getFileDataFromRawUrl_pathname [OF d assms(2)] hp)
  have lookup: "h \<noteq> [] \<longrightarrow>
            findFile \<lparr>flt_id = None, flt_hash = Some h, flt_name = None\<rparr> w =
              (find (\<lambda>x. \<exists>rest. file_hash x = h @ ''_'' @ rest) (store w),
               emit (FindManyHash (h @ ''_'')) w)"
    by (simp add: findFile_by_hash startsWith_iff)
  from hp valid lookup show ?thesis by blast
qed

lemma example_decode_pic:
  "decodeURIComponent example_env ''https://x/y/pic.png'' = Inr ''https://x/y/pic.png''"
  by (simp add: example_env_def example_decode_def)

lemma example_pathname_pic: "url_pathname example_env ''https://x/y/pic.png'' = Inr ''/y/pic.png''"
  by (simp add: example_env_def example_pathname_def startsWith_def)

theorem hashPart_is_slug_of_path_without_extension_witness:
  "getHashPart example_env (Some ''https://x/y/pic.png'') = Inr ''y_pic'' \<and>
   cf_hashPart (cr_fileData (fst (isValidFileUrl example_env (Some ''https://x/y/pic.png'') [''images'']
      (empty_world\<lparr>store := [dash_slug_file]\<rparr>)))) =
     Some ''y_pic'' \<and>
   findFile \<lparr>flt_id = None, flt_hash = Some ''y_pic'', flt_name = None\<rparr> (empty_world\<lparr>store := [dash_slug_file]\<rparr>) =
     (None, emit (FindManyHash ''y_pic_'') (empty_world\<lparr>store := [dash_slug_file]\<rparr>))"
proof -
  have allowed: "isExtensionAllowed (toLowerCase (split_pop CHR ''.'' ''/y/pic.png'')) [''images''] = Inr True"
    by code_simp
  have slug: "slugify example_env (if without_extension ''/y/pic.png'' = [] then ''/y/pic.png''
                             else without_extension ''/y/pic.png'') = ''y_pic''"
    by code_simp
  note t = hashPart_is_slug_of_path_without_extension [OF example_decode_pic example_pathname_pic,
      of "[''images'']" "empty_world\<lparr>store := [dash_slug_file]\<rparr>" "''y_pic''"]
  from t slug have a: "getHashPart example_env (Some ''https://x/y/pic.png'') = Inr ''y_pic''"
    by simp
  from t allowed slug have b:
    "cf_hashPart (cr_fileData (fst (isValidFileUrl example_env (Some ''https://x/y/pic.png'')
       [''images''] (empty_world\<lparr>store := [dash_slug_file]\<rparr>)))) = Some ''y_pic''"
    by simp
  have c0: "findFile \<lparr>flt_id = None, flt_hash = Some ''y_pic'', flt_name = None\<rparr>
       (empty_world\<lparr>store := [dash_slug_file]\<rparr>) =
     (find (\<lambda>x. \<exists>rest. file_hash x = ''y_pic'' @ ''_'' @ rest)
        (store (empty_world\<lparr>store := [dash_slug_file]\<rparr>)),
      emit (FindManyHash (''y_pic'' @ ''_'')) (empty_world\<lparr>store := [dash_slug_file]\<rparr>))"
    using t [THEN conjunct2, THEN conjunct2] by (rule mp) simp
  have st: "store (empty_world\<lparr>store := [dash_slug_file]\<rparr>) = [dash_slug_file]"
    by simp
  have c: "findFile \<lparr>flt_id = None, flt_hash = Some ''y_pic'', flt_name = None\<rparr>
       (empty_world\<lparr>store := [dash_slug_file]\<rparr>) =
     (None, emit (FindManyHash ''y_pic_'') (empty_world\<lparr>store := [dash_slug_file]\<rparr>))"
    unfolding c0 st by (simp add: dash_slug_file_def)
  from a b c show ?thesis by blast
qed

section \<open>A response outside the 2xx range\<close>

text \<open>
  A transport error rejects the promise of \<open>fetchFile\<close>. A status outside 200 .. 299 is
  thrown inside the \<open>async\<close> callback instead: the promise of \<open>fetchFile\<close> is left
  pending.
\<close>

lemma fetchFile_transport_error:
  "request env url = RequestFailed err \<Longrightarrow>
   fetchFile env url w = (Rejected err, emit (HttpGet url) w)"
  by (simp add: fetchFile_def)

lemma fetchFile_status_outside_2xx:
  "request env url = Responded res \<Longrightarrow>
   statusCode res < 200 \<or> 300 \<le> statusCode res \<Longrightarrow>
   fetchFile env url w =
     (Pending, emit (UnhandledRejection (StatusCodeError url (statusCode res))) (emit (HttpGet url) w))"
  by (simp add: fetchFile_def unhandled_def)

text \<open>
  C3 claims that a GET answered with a status outside the 2xx range rejects the promise
  of \<open>fetchFile\<close>, and so those of \<open>importFile\<close> and \<open>importByUrl\<close>. At a URL answered
  with 404 the three promises are never settled: the error is an unhandled rejection of
  the callback. Nothing is uploaded.
\<close>

theorem status_404_never_settles:
  "fetchFile example_env (Some ''https://x/gone.png'') empty_world =
     (Pending,
      \<lparr>store = [], disk = {}, tmp_seq = 0,
       trace = [HttpGet (Some ''https://x/gone.png''),
                UnhandledRejection (StatusCodeError (Some ''https://x/gone.png'') 404)]\<rparr>) \<and>
   fst (importFile example_env (url_only ''https://x/gone.png'') ''admin'' empty_world) = Pending \<and>
   importByUrl example_env (url_only ''https://x/gone.png'') [''images''] ''admin'' empty_world =
     (Pending,
      \<lparr>store = [], disk = {}, tmp_seq = 0,
       trace = [FindManyHash ''gone.png_'', HttpGet (Some ''https://x/gone.png''),
                UnhandledRejection (StatusCodeError (Some ''https://x/gone.png'') 404)]\<rparr>)"
  by code_simp

section \<open>Resolving one URL twice\<close>

text \<open>
  \<open>importByUrl\<close> reuses a stored file exactly when the store holds a hash that starts
  with the file name of the URL (the lower-cased path, its slashes turned into dashes,
  the extension kept) and an underscore.
\<close>

lemma importByUrl_lookup:
  assumes "isValidFileUrl env (d_url d) allowedFileTypes w = (checkResult, w1)"
    and "cr_isValid checkResult"
    and "cf_fileName (cr_fileData checkResult) \<noteq> []"
  shows "importByUrl env d allowedFileTypes user w =
     (case find (\<lambda>x. startsWith (file_hash x) (cf_fileName (cr_fileData checkResult) @ ''_'')) (store w1) of
        Some f \<Rightarrow>
          (Resolved (Some f), emit (FindManyHash (cf_fileName (cr_fileData checkResult) @ ''_'')) w1)
      | None \<Rightarrow>
          importFile env (d\<lparr>d_url := cf_rawUrl (cr_fileData checkResult)\<rparr>) user
            (emit (FindManyHash (cf_fileName (cr_fileData checkResult) @ ''_'')) w1))"
  using assms by (simp add: importByUrl_def findFile_by_hash split: option.splits)

text \<open>
  C1 claims that the second resolution of a URL within one run reuses the file the first
  one stored and uploads nothing. With a media store that names an uploaded file by the
  slug of its name without the extension, the first resolution of \<open>https://x/y/pic.png\<close>
  stores the hash \<open>y_pic_0\<close>; the second looks for a hash that starts with
  \<open>y-pic.png_\<close>, finds none, and fetches and uploads the file again.
\<close>

theorem second_resolution_uploads_again:
  "fst first_resolution =
     Resolved (Some \<lparr>file_id = 1, file_hash = ''y_pic_0'', file_ext = ''.png'',
                     file_name = ''y-pic.png''\<rparr>) \<and>
   fst second_resolution =
     Resolved (Some \<lparr>file_id = 2, file_hash = ''y_pic_00'', file_ext = ''.png'',
                     file_name = ''y-pic.png''\<rparr>) \<and>
   store (snd second_resolution) =
     [\<lparr>file_id = 1, file_hash = ''y_pic_0'', file_ext = ''.png'', file_name = ''y-pic.png''\<rparr>,
      \<lparr>file_id = 2, file_hash = ''y_pic_00'', file_ext = ''.png'', file_name = ''y-pic.png''\<rparr>] \<and>
   calls_since (snd first_resolution) (snd second_resolution) =
     [FindManyHash ''y-pic.png_'',
      HttpGet (Some ''https://x/y/pic.png''),
      Mkdtemp ''/tmp/strapi-upload-XX'',
      WriteFile ''/tmp/strapi-upload-XX/y-pic.png'',
      Upload \<lparr>up_files = \<lparr>tf_name = ''y-pic.png'', tf_type = ''image/png'', tf_size = 3,
                           tf_path = ''/tmp/strapi-upload-XX/y-pic.png''\<rparr>,
              up_fileInfo = \<lparr>info_name = ''y-pic.png'', info_alternativeText = ''y-pic.png'',
                              info_caption = ''y-pic.png''\<rparr>,
              up_user = ''admin''\<rparr>,
      RmFile ''/tmp/strapi-upload-XX/y-pic.png'']"
  by code_simp

end
